theory Spec2Isabelle
  imports Main "HOL-Library.Word"
begin

unbundle bit_operations_syntax

section \<open>The mmdbwriter search tree and its writer\<close>

text \<open>
  A shallow embedding of the Go package \<^verbatim>\<open>mmdbwriter\<close> (the file with \<^verbatim>\<open>New(opts Options)\<close>).
  Conventions:
  \<^item> Go's \<^verbatim>\<open>int\<close> and \<^verbatim>\<open>int64\<close> are modelled by \<^typ>\<open>int\<close>. The quantities held in them
    (node counts, byte counts, offsets, prefix lengths) are bounded by the size of the
    memory, and the bit operations of \<^verbatim>\<open>copyRecord\<close> are right shifts, masks and one left
    shift by 4 of a 4-bit value, so no operation of the modelled code wraps around.
  \<^item> A \<^verbatim>\<open>byte\<close> is an \<^typ>\<open>8 word\<close>; the conversion \<^verbatim>\<open>byte(x)\<close> keeps the low 8 bits.
  \<^item> A byte slice (\<^verbatim>\<open>[]byte\<close>, \<^verbatim>\<open>net.IP\<close>, \<^verbatim>\<open>net.IPMask\<close>) is a list; the \<^verbatim>\<open>nil\<close> slice is
    the empty list (both have length 0 in Go). Where the code tests a slice against
    \<^verbatim>\<open>nil\<close> the model uses an option.
  \<^item> A method that mutates its receiver returns the new receiver.
  \<^item> An \<^verbatim>\<open>error\<close> result is an \<^typ>\<open>'e option\<close> (\<open>None\<close> is \<^verbatim>\<open>nil\<close>) next to the other
    results, since the Go functions return their counts together with the error.
\<close>

type_synonym byte = "8 word"

definition to_byte :: "int \<Rightarrow> byte" where
  "to_byte x = word_of_int x"

subsection \<open>Errors\<close>

text \<open>
  One constructor for each error the code creates, named after the error kind and
  carrying the arguments of the message:
  \<^item> \<open>UnsupportedIPVersion v\<close>: \<^verbatim>\<open>"unsupported IPVersion: %d"\<close> (\<^verbatim>\<open>New\<close>);
  \<^item> \<open>InvalidPrefix\<close>: \<^verbatim>\<open>"cannot insert a value into the root node of the tree"\<close> (\<^verbatim>\<open>Insert\<close>);
  \<^item> \<open>NotFinalized\<close>: \<^verbatim>\<open>"the Tree is not finalized; run Finalize() before writing"\<close>;
  \<^item> \<open>InternalInconsistency written expected\<close>:
    \<^verbatim>\<open>"number of nodes written (%d) doesn't match number expected (%d)"\<close>;
  \<^item> \<open>UnsupportedRecordSize s\<close>: \<^verbatim>\<open>"unsupported record size of %d"\<close> (\<^verbatim>\<open>copyRecord\<close>);
  \<^item> \<open>Wrap msg e\<close>: \<^verbatim>\<open>errors.Wrap(e, msg)\<close>;
  \<^item> \<open>SinkError\<close>: the error of the caller's \<^verbatim>\<open>io.Writer\<close>; \<open>ErrShortWrite\<close>: \<^verbatim>\<open>io.ErrShortWrite\<close>;
  \<^item> \<open>EncodeError\<close>: an error of the value serializer;
  \<^item> \<open>RuntimePanic\<close>: a Go run-time panic (negative \<^verbatim>\<open>make\<close> length, index out of range).
\<close>

datatype error =
    UnsupportedIPVersion int
  | InvalidPrefix
  | NotFinalized
  | InternalInconsistency int int
  | UnsupportedRecordSize int
  | Wrap string error
  | SinkError
  | ErrShortWrite
  | EncodeError
  | RuntimePanic

subsection \<open>The Go library: package net\<close>

text \<open>
  \<^verbatim>\<open>net.IPNet\<close> with its fields \<^verbatim>\<open>IP\<close> and \<^verbatim>\<open>Mask\<close>. The functions below follow the Go
  standard library (go 1.18, \<^verbatim>\<open>net/ip.go\<close>), which the package calls.
\<close>

record IPNet =
  IP :: "byte list"
  Mask :: "byte list"

text \<open>
  The inner loop of \<^verbatim>\<open>simpleMaskLength\<close>:
  \<^verbatim>\<open>for v&0x80 != 0 { n++; v <<= 1 }\<close>, returning \<open>n\<close> and the remaining \<open>v\<close>.
\<close>

function count_ones :: "byte \<Rightarrow> int \<Rightarrow> int \<times> byte" where
  "count_ones v n = (if v AND 0x80 \<noteq> 0 then count_ones (push_bit 1 v) (n + 1) else (n, v))"
  by pat_completeness auto

lemma take_bit_and_push_bit_nat: "take_bit n (x::nat) AND push_bit n y = 0"
  by (rule bit_eqI) (auto simp: bit_simps)

lemma top_bit_set_ge_128: "(v::byte) AND 0x80 \<noteq> 0 \<Longrightarrow> 128 \<le> unat v"
proof (rule ccontr)
  assume a: "v AND 0x80 \<noteq> 0" and "\<not> 128 \<le> unat v"
  then have "unat v < 2 ^ 7" by simp
  then have t: "take_bit 7 (unat v) = unat v"
    by (simp add: take_bit_nat_eq_self)
  have "unat (v AND 0x80) = unat v AND 128" by (simp add: unsigned_and_eq)
  also have "\<dots> = 0" using take_bit_and_push_bit_nat [of 7 "unat v" 1] t by simp
  finally have "v AND 0x80 = 0" by (simp add: unat_eq_0)
  then show False using a by simp
qed

lemma count_ones_decreases: "v AND 0x80 \<noteq> 0 \<Longrightarrow> unat (push_bit 1 v) < unat (v :: byte)"
proof -
  assume "v AND 0x80 \<noteq> 0"
  then have a: "128 \<le> unat v" by (rule top_bit_set_ge_128)
  have b: "unat v < 256"
    using unsigned_less [of v, where ?'a = nat] by simp
  have "unat (push_bit 1 v) = (2 * unat v) mod 256"
    by (simp add: unat_word_ariths push_bit_eq_mult mult.commute)
  also have "\<dots> = (2 * unat v - 256) mod 256"
    using a by (simp add: le_mod_geq)
  also have "\<dots> = 2 * unat v - 256"
    using a b by simp
  finally show ?thesis using a b by linarith
qed

termination count_ones
proof (relation "measure (\<lambda>(v, n). unat v)")
  show "wf (measure (\<lambda>(v :: byte, n :: int). unat v))"
    by simp
next
  fix v :: byte and n :: int
  assume "v AND 0x80 \<noteq> 0"
  then have "unat (push_bit 1 v) < unat v"
    by (rule count_ones_decreases)
  then show "((push_bit 1 v, n + 1), (v, n)) \<in> measure (\<lambda>(v, n). unat v)"
    by simp
qed

declare count_ones.simps [simp del]

text \<open>
  \<^verbatim>\<open>simpleMaskLength\<close>: the number of leading one bits when the mask is ones followed by
  zeros, and \<open>-1\<close> otherwise.
\<close>

fun simpleMaskLength_from :: "byte list \<Rightarrow> int \<Rightarrow> int" where
  "simpleMaskLength_from [] n = n"
| "simpleMaskLength_from (v # rest) n =
     (if v = 0xff then simpleMaskLength_from rest (n + 8)
      else (case count_ones v n of
              (n', v') \<Rightarrow>
                if v' \<noteq> 0 then -1
                else if list_ex (\<lambda>b. b \<noteq> 0) rest then -1
                else n'))"

definition simpleMaskLength :: "byte list \<Rightarrow> int" where
  "simpleMaskLength m = simpleMaskLength_from m 0"

text \<open>\<^verbatim>\<open>func (m IPMask) Size() (ones, bits int)\<close>\<close>

definition Size :: "byte list \<Rightarrow> int \<times> int" where
  "Size m =
     (let ones = simpleMaskLength m; bits = int (length m) * 8
      in if ones = -1 then (0, 0) else (ones, bits))"

text \<open>
  \<^verbatim>\<open>func CIDRMask(ones, bits int) IPMask\<close>; \<open>cidr_bytes l n\<close> is its loop over the \<open>l\<close>
  bytes of the mask with \<open>n\<close> one bits left to place.
\<close>

fun cidr_bytes :: "nat \<Rightarrow> nat \<Rightarrow> byte list" where
  "cidr_bytes 0 n = []"
| "cidr_bytes (Suc l) n =
     (if n \<ge> 8 then 0xff # cidr_bytes l (n - 8)
      else NOT (drop_bit n (0xff :: byte)) # cidr_bytes l 0)"

definition CIDRMask :: "int \<Rightarrow> int \<Rightarrow> byte list" where
  "CIDRMask ones bits =
     (if bits \<noteq> 8 * 4 \<and> bits \<noteq> 8 * 16 then []
      else if ones < 0 \<or> ones > bits then []
      else cidr_bytes (nat (bits div 8)) (nat ones))"

definition allFF :: "byte list \<Rightarrow> bool" where
  "allFF b = list_all (\<lambda>c. c = 0xff) b"

definition isZeros :: "byte list \<Rightarrow> bool" where
  "isZeros p = list_all (\<lambda>c. c = 0) p"

definition v4InV6Prefix :: "byte list" where
  "v4InV6Prefix = [0, 0, 0, 0, 0, 0, 0, 0, 0, 0, 0xff, 0xff]"

text \<open>\<^verbatim>\<open>func (ip IP) To4() IP\<close>; \<open>None\<close> is the \<^verbatim>\<open>nil\<close> result.\<close>

definition To4 :: "byte list \<Rightarrow> byte list option" where
  "To4 ip =
     (if length ip = 4 then Some ip
      else if length ip = 16 \<and> isZeros (take 10 ip) \<and> ip ! 10 = 0xff \<and> ip ! 11 = 0xff
      then Some (drop 12 ip)
      else None)"

text \<open>\<^verbatim>\<open>func (ip IP) Mask(mask IPMask) IP\<close>; the \<^verbatim>\<open>nil\<close> result is \<open>[]\<close>.\<close>

definition IP_Mask :: "byte list \<Rightarrow> byte list \<Rightarrow> byte list" where
  "IP_Mask ip0 mask0 =
     (let m = (if length mask0 = 16 \<and> length ip0 = 4 \<and> allFF (take 12 mask0)
               then drop 12 mask0 else mask0);
          ip = (if length m = 4 \<and> length ip0 = 16 \<and> take 12 ip0 = v4InV6Prefix
                then drop 12 ip0 else ip0)
      in if length ip \<noteq> length m then []
         else map2 (\<lambda>a b. a AND b) ip m)"

subsection \<open>The Go library: io.Writer, bufio.Writer and bytes.Buffer\<close>

text \<open>
  The caller's \<^verbatim>\<open>io.Writer\<close> is an interface. It is modelled by a sink that appends the
  bytes it accepts to \<open>accepted\<close> and either never fails (\<open>room = None\<close>) or accepts
  \<open>k\<close> more bytes (\<open>room = Some k\<close>) and then fails: a \<^verbatim>\<open>Write\<close> that does not fit accepts
  the bytes that fit and returns their number with an error.
\<close>

record sink =
  accepted :: "byte list"
  room :: "nat option"

definition sink_Write :: "sink \<Rightarrow> byte list \<Rightarrow> sink \<times> int \<times> error option" where
  "sink_Write w p =
     (case room w of
        None \<Rightarrow> (w\<lparr>accepted := accepted w @ p\<rparr>, int (length p), None)
      | Some k \<Rightarrow>
          if length p \<le> k
          then (w\<lparr>accepted := accepted w @ p, room := Some (k - length p)\<rparr>, int (length p), None)
          else (w\<lparr>accepted := accepted w @ take k p, room := Some 0\<rparr>, int k, Some SinkError))"

text \<open>
  \<^verbatim>\<open>bufio.Writer\<close> (go 1.18, \<^verbatim>\<open>bufio/bufio.go\<close>): the bytes buffered and not yet written
  (\<^verbatim>\<open>b.buf[0:b.n]\<close>), the underlying writer and the sticky error. The buffer holds
  \<^verbatim>\<open>defaultBufSize = 4096\<close> bytes.
\<close>

record bufio =
  b_buf :: "byte list"
  b_wr :: sink
  b_err :: "error option"

definition defaultBufSize :: int where
  "defaultBufSize = 4096"

definition NewWriter :: "sink \<Rightarrow> bufio" where
  "NewWriter w = \<lparr>b_buf = [], b_wr = w, b_err = None\<rparr>"

definition Available :: "bufio \<Rightarrow> int" where
  "Available b = defaultBufSize - int (length (b_buf b))"

definition Buffered :: "bufio \<Rightarrow> int" where
  "Buffered b = int (length (b_buf b))"

text \<open>\<^verbatim>\<open>func (b *Writer) Flush() error\<close>\<close>

definition Flush :: "bufio \<Rightarrow> bufio \<times> error option" where
  "Flush b =
     (if b_err b \<noteq> None then (b, b_err b)
      else if b_buf b = [] then (b, None)
      else (case sink_Write (b_wr b) (b_buf b) of
              (w', n, e) \<Rightarrow>
                (let e' = (if n < int (length (b_buf b)) \<and> e = None then Some ErrShortWrite else e)
                 in if e' \<noteq> None
                    then (b\<lparr>b_wr := w', b_buf := drop (nat n) (b_buf b), b_err := e'\<rparr>, e')
                    else (b\<lparr>b_wr := w', b_buf := []\<rparr>, None))))"

text \<open>
  The loop of \<^verbatim>\<open>func (b *Writer) Write(p []byte) (nn int, err error)\<close>:
  \<^verbatim>\<open>for len(p) > b.Available() && b.err == nil { ... }\<close>, on the writer, the bytes left
  and the count \<open>nn\<close>.
\<close>

function Write_loop :: "bufio \<Rightarrow> byte list \<Rightarrow> int \<Rightarrow> bufio \<times> byte list \<times> int" where
  "Write_loop b p nn =
     (if int (length p) > Available b \<and> b_err b = None then
        (if Buffered b = 0 then
           (case sink_Write (b_wr b) p of
              (w', n, e) \<Rightarrow> Write_loop (b\<lparr>b_wr := w', b_err := e\<rparr>) (drop (nat n) p) (nn + n))
         else
           (let n = min (nat (Available b)) (length p);
                b1 = b\<lparr>b_buf := b_buf b @ take n p\<rparr>;
                b2 = fst (Flush b1)
            in Write_loop b2 (drop n p) (nn + int n)))
      else (b, p, nn))"
  by pat_completeness auto

lemma sink_Write_no_error:
  "sink_Write w p = (w', n, None) \<Longrightarrow> n = int (length p) \<and> accepted w' = accepted w @ p"
  by (auto simp: sink_Write_def split: option.splits if_splits)

lemma Flush_no_error:
  "b_err (fst (Flush b)) = None \<Longrightarrow> b_buf (fst (Flush b)) = []"
  by (auto simp: Flush_def Let_def split: prod.splits if_splits)

termination Write_loop
proof (relation "measure (\<lambda>(b, p, nn). if b_err b \<noteq> None then 0
                    else 1 + 2 * length p + (if b_buf b = [] then 0 else 1))",
       goal_cases)
  case 1
  show ?case by simp
next
  case 2
  then show ?case
    by (auto simp: Buffered_def Available_def defaultBufSize_def dest!: sink_Write_no_error [OF sym])
next
  case 3
  then show ?case
    by (auto simp: Buffered_def Available_def defaultBufSize_def Flush_no_error)
qed

declare Write_loop.simps [simp del]

text \<open>\<^verbatim>\<open>func (b *Writer) Write(p []byte) (nn int, err error)\<close>\<close>

definition Write :: "bufio \<Rightarrow> byte list \<Rightarrow> bufio \<times> int \<times> error option" where
  "Write b p =
     (case Write_loop b p 0 of
        (b', p', nn) \<Rightarrow>
          if b_err b' \<noteq> None then (b', nn, b_err b')
          else (b'\<lparr>b_buf := b_buf b' @ p'\<rparr>, nn + int (length p'), None))"

text \<open>
  \<^verbatim>\<open>func (b *Buffer) WriteTo(w io.Writer) (n int64, err error)\<close> of \<^verbatim>\<open>bytes.Buffer\<close>, on the
  unread bytes of the buffer: one \<^verbatim>\<open>Write\<close> of all of them when there are any.
\<close>

definition Buffer_WriteTo :: "byte list \<Rightarrow> bufio \<Rightarrow> bufio \<times> int \<times> error option" where
  "Buffer_WriteTo bs w =
     (if bs \<noteq> [] then
        (case Write w bs of
           (w', m, e) \<Rightarrow>
             if e \<noteq> None then (w', m, e)
             else if m \<noteq> int (length bs) then (w', m, Some ErrShortWrite)
             else (w', m, None))
      else (w, 0, None))"

subsection \<open>Data values, trie nodes and the data writer\<close>

text \<open>
  Modelled from the spec: the type \<^verbatim>\<open>DataType\<close> and its variants (the value model is not
  among the sources). The variants of section 3: pointer, utf8-string, double, bytes,
  uint16, uint32, map, int32, uint64, uint128, slice, bool, float. Floating point values
  are kept as their IEEE-754 bit patterns. A Go map is an association list with distinct
  keys, whose order carries no meaning.
\<close>

datatype DataType =
    Pointer "32 word"
  | String string
  | Float64 "64 word"
  | Bytes "byte list"
  | Uint16 "16 word"
  | Uint32 "32 word"
  | Map "(string \<times> DataType) list"
  | Int32 "32 word"
  | Uint64 "64 word"
  | Uint128 "128 word"
  | Slice "DataType list"
  | Bool bool
  | Float32 "32 word"

text \<open>
  The serializer of a value (the method \<^verbatim>\<open>writeTo\<close> of the value model, not among the
  sources) is a parameter \<open>enc\<close> of the functions that write: the bytes of the value's
  encoding, or an error.
\<close>

type_synonym encoder = "DataType \<Rightarrow> error + byte list"

text \<open>
  Modelled from the spec: the type \<^verbatim>\<open>node\<close> (its declaration is not among the sources; the
  code under verification uses its fields \<^verbatim>\<open>children\<close>, \<^verbatim>\<open>value\<close>, \<^verbatim>\<open>nodeNum\<close> and its
  method \<^verbatim>\<open>isLeaf\<close>). Section 3: a node is either a leaf, empty or holding one data
  value, or an internal node with a node number and two children that always exist.
\<close>

datatype node =
    Leaf (leaf_value: "DataType option")
  | Internal (nodeNum: int) (child0: node) (child1: node)

text \<open>Modelled from the spec: \<^verbatim>\<open>isLeaf\<close>, the test that a node is a leaf.\<close>

fun isLeaf :: "node \<Rightarrow> bool" where
  "isLeaf (Leaf x) = True"
| "isLeaf (Internal k l r) = False"

text \<open>
  Modelled from the spec: the bit of an address that selects the child at a depth, the
  most significant bit of the first byte being bit 0. The spec does not say what a bit
  past the end of the address is; it is read as 0 here.
\<close>

definition bitAt :: "byte list \<Rightarrow> int \<Rightarrow> bool" where
  "bitAt ip depth =
     (let i = nat (depth div 8)
      in if 0 \<le> depth \<and> i < length ip then bit (ip ! i) (7 - nat (depth mod 8)) else False)"

text \<open>
  Modelled from the spec: \<^verbatim>\<open>insert\<close> on nodes (section 4.1, insert algorithm). A leaf
  on the path is materialized into an internal node whose two children are copies of
  that leaf; at bit index \<open>prefixLen - 1\<close> the selected child slot is replaced by a valued
  leaf, whatever was there.
\<close>

fun materialize :: "node \<Rightarrow> node" where
  "materialize (Leaf x) = Internal 0 (Leaf x) (Leaf x)"
| "materialize (Internal k l r) = Internal k l r"

function insert_node :: "node \<Rightarrow> byte list \<Rightarrow> int \<Rightarrow> int \<Rightarrow> DataType \<Rightarrow> node" where
  "insert_node n ip prefixLen depth v =
     (case materialize n of
        Internal k l r \<Rightarrow>
          if prefixLen \<le> depth + 1 then
            (if bitAt ip depth then Internal k l (Leaf (Some v)) else Internal k (Leaf (Some v)) r)
          else
            (if bitAt ip depth then Internal k l (insert_node r ip prefixLen (depth + 1) v)
             else Internal k (insert_node l ip prefixLen (depth + 1) v) r)
      | Leaf x \<Rightarrow> Leaf x)"
  by pat_completeness auto
termination
  by (relation "measure (\<lambda>(n, ip, prefixLen, depth, v). nat (prefixLen - depth))") auto

declare insert_node.simps [simp del]

text \<open>
  Modelled from the spec: \<^verbatim>\<open>get\<close> on nodes (section 4.1): descend by the address bits,
  stop at the first leaf and return the depth reached and the leaf's value.
\<close>

fun get_node :: "node \<Rightarrow> byte list \<Rightarrow> int \<Rightarrow> int \<times> DataType option" where
  "get_node (Leaf x) ip depth = (depth, x)"
| "get_node (Internal k l r) ip depth =
     (if bitAt ip depth then get_node r ip (depth + 1) else get_node l ip (depth + 1))"

text \<open>
  Modelled from the spec: \<^verbatim>\<open>finalize\<close> on nodes (section 4.2): a leaf contributes 0; an
  internal node takes the next available number, then the left subtree is numbered,
  then the right one, and the counts are summed. The result is the numbered node and
  the number of internal nodes below and including it.
\<close>

fun finalize :: "node \<Rightarrow> int \<Rightarrow> node \<times> int" where
  "finalize (Leaf x) cur = (Leaf x, 0)"
| "finalize (Internal k l r) cur =
     (case finalize l (cur + 1) of
        (l', cl) \<Rightarrow>
          (case finalize r (cur + 1 + cl) of
             (r', cr) \<Rightarrow> (Internal cur l' r', 1 + cl + cr)))"

text \<open>
  Modelled from the spec: the data writer (section 4.4; its file is not among the
  sources): an append-only buffer and the offsets of the values already written, keyed by
  the bytes of their encoding. Writing a value that is pooled returns its offset and
  emits nothing; otherwise the encoding is appended and its offset recorded and returned.
\<close>

record dataWriter =
  buf :: "byte list"
  offsets :: "(byte list \<times> int) list"

definition newDataWriter :: dataWriter where
  "newDataWriter = \<lparr>buf = [], offsets = []\<rparr>"

definition dataWriter_write ::
  "encoder \<Rightarrow> dataWriter \<Rightarrow> DataType \<Rightarrow> int \<times> dataWriter \<times> error option" where
  "dataWriter_write enc dw v =
     (case enc v of
        Inl e \<Rightarrow> (0, dw, Some e)
      | Inr bs \<Rightarrow>
          (case map_of (offsets dw) bs of
             Some off \<Rightarrow> (off, dw, None)
           | None \<Rightarrow>
               (let off = int (length (buf dw))
                in (off, dw\<lparr>buf := buf dw @ bs, offsets := (bs, off) # offsets dw\<rparr>, None))))"

subsection \<open>The tree\<close>

text \<open>\<^verbatim>\<open>var ( metadataStartMarker = ...; dataSectionSeparator = ... )\<close>\<close>

definition metadataStartMarker :: "byte list" where
  "metadataStartMarker = [0xAB, 0xCD, 0xEF] @ map (\<lambda>c. of_char c) ''MaxMind.com''"

definition dataSectionSeparator :: "byte list" where
  "dataSectionSeparator = [0, 0, 0, 0, 0, 0, 0, 0, 0, 0, 0, 0, 0, 0, 0, 0]"

text \<open>
  \<^verbatim>\<open>type Options struct\<close>. \<^verbatim>\<open>Description\<close> and \<^verbatim>\<open>Languages\<close> are tested against \<^verbatim>\<open>nil\<close>.
\<close>

record Options =
  BuildEpoch :: int
  DatabaseType :: string
  Description :: "(string \<times> string) list option"
  IPVersion :: int
  Languages :: "string list option"
  RecordSize :: int

text \<open>\<^verbatim>\<open>type Tree struct\<close>\<close>

record Tree =
  buildEpoch :: int
  databaseType :: string
  description :: "(string \<times> string) list"
  ipVersion :: int
  languages :: "string list"
  recordSize :: int
  root :: node
  treeDepth :: int
  nodeCount :: int

text \<open>
  \<^verbatim>\<open>func New(opts Options) (*Tree, error)\<close>. The clock \<^verbatim>\<open>time.Now().Unix()\<close> is the
  parameter \<open>now\<close>. \<^verbatim>\<open>&node{}\<close> is the zero node: no children and no value, an empty
  leaf. The fields \<^verbatim>\<open>treeDepth\<close> and \<^verbatim>\<open>nodeCount\<close> start at Go's zero value.
\<close>

definition New :: "int \<Rightarrow> Options \<Rightarrow> error + Tree" where
  "New now opts =
     (let tree = \<lparr>buildEpoch = now, databaseType = DatabaseType opts, description = [],
                  ipVersion = 6, languages = [], recordSize = 28, root = Leaf None,
                  treeDepth = 0, nodeCount = 0\<rparr>;
          tree = (if BuildEpoch opts \<noteq> 0 then tree\<lparr>buildEpoch := BuildEpoch opts\<rparr> else tree);
          tree = (case Description opts of Some d \<Rightarrow> tree\<lparr>description := d\<rparr> | None \<Rightarrow> tree);
          tree = (if IPVersion opts \<noteq> 0 then tree\<lparr>ipVersion := IPVersion opts\<rparr> else tree);
          tree = (case Languages opts of Some l \<Rightarrow> tree\<lparr>languages := l\<rparr> | None \<Rightarrow> tree);
          tree = (if RecordSize opts \<noteq> 0 then tree\<lparr>recordSize := RecordSize opts\<rparr> else tree)
      in if ipVersion tree = 6 then Inr (tree\<lparr>treeDepth := 128\<rparr>)
         else if ipVersion tree = 4 then Inr (tree\<lparr>treeDepth := 32\<rparr>)
         else Inl (UnsupportedIPVersion (ipVersion tree)))"

text \<open>\<^verbatim>\<open>var v4Prefix = net.IP{0, ..., 0}\<close> (12 bytes) and \<^verbatim>\<open>func ipV4ToV6(ip net.IP) net.IP\<close>\<close>

definition v4Prefix :: "byte list" where
  "v4Prefix = [0, 0, 0, 0, 0, 0, 0, 0, 0, 0, 0, 0]"

definition ipV4ToV6 :: "byte list \<Rightarrow> byte list" where
  "ipV4ToV6 ip = v4Prefix @ ip"

text \<open>
  \<^verbatim>\<open>func (t *Tree) Insert(network *net.IPNet, value DataType) error\<close>. The tree is
  changed in place, also when an error is returned, so the result is the tree after the
  call together with the error.
\<close>

definition Insert :: "Tree \<Rightarrow> IPNet \<Rightarrow> DataType \<Rightarrow> Tree \<times> error option" where
  "Insert t0 network v =
     (let t = t0\<lparr>nodeCount := 0\<rparr>;
          prefixLen = fst (Size (Mask network))
      in if prefixLen = 0 then (t, Some InvalidPrefix)
         else
           (let ip = IP network;
                (ip, prefixLen) =
                  (if treeDepth t = 128 \<and> length ip = 4 then (ipV4ToV6 ip, prefixLen + 96)
                   else (ip, prefixLen))
            in (t\<lparr>root := insert_node (root t) ip prefixLen 0 v\<rparr>, None)))"

text \<open>\<^verbatim>\<open>func (t *Tree) Get(ip net.IP) (*net.IPNet, *DataType)\<close>\<close>

definition Get :: "Tree \<Rightarrow> byte list \<Rightarrow> IPNet \<times> DataType option" where
  "Get t ip =
     (let lookupIP =
            (if treeDepth t = 128 then
               (case To4 ip of Some ipv4 \<Rightarrow> ipV4ToV6 ipv4 | None \<Rightarrow> ip)
             else ip);
          (prefixLen, v) = get_node (root t) lookupIP 0;
          prefixLen = (if prefixLen \<ge> 96 \<and> length ip = 4 then prefixLen - 96 else prefixLen);
          m = CIDRMask prefixLen (treeDepth t)
      in (\<lparr>IP = IP_Mask ip m, Mask = m\<rparr>, v))"

text \<open>\<^verbatim>\<open>func (t *Tree) Finalize()\<close>: the nodes are numbered in place.\<close>

definition Finalize :: "Tree \<Rightarrow> Tree" where
  "Finalize t =
     (case finalize (root t) 0 of (r, n) \<Rightarrow> t\<lparr>root := r, nodeCount := n\<rparr>)"

subsection \<open>Writing the tree\<close>

text \<open>
  \<^verbatim>\<open>func (t *Tree) recordValueForNode(n *node, dataWriter *dataWriter) (int, error)\<close>.
  The data writer is changed in place, so it is returned with the results.
\<close>

definition recordValueForNode ::
  "encoder \<Rightarrow> Tree \<Rightarrow> node \<Rightarrow> dataWriter \<Rightarrow> int \<times> dataWriter \<times> error option" where
  "recordValueForNode enc t n dw =
     (if isLeaf n then
        (case leaf_value n of
           Some v \<Rightarrow>
             (case dataWriter_write enc dw v of
                (offset, dw', e) \<Rightarrow>
                  (nodeCount t + int (length dataSectionSeparator) + offset, dw', e))
         | None \<Rightarrow> (nodeCount t, dw, None))
      else (nodeNum n, dw, None))"

text \<open>
  The \<^verbatim>\<open>switch t.recordSize\<close> of \<^verbatim>\<open>copyRecord\<close>: the bytes of the record are stored into the
  buffer, which is changed in place. A store past the end of the buffer is a run-time
  panic; the record needs 6, 7 or 8 bytes.
\<close>

definition packRecord :: "int \<Rightarrow> byte list \<Rightarrow> int \<Rightarrow> int \<Rightarrow> error + byte list" where
  "packRecord rs rbuf left right =
     (if rs = 24 then
        (if length rbuf < 6 then Inl RuntimePanic
         else Inr (rbuf
           [0 := to_byte (drop_bit 16 left AND 0xFF),
            1 := to_byte (drop_bit 8 left AND 0xFF),
            2 := to_byte (left AND 0xFF),
            3 := to_byte (drop_bit 16 right AND 0xFF),
            4 := to_byte (drop_bit 8 right AND 0xFF),
            5 := to_byte (right AND 0xFF)]))
      else if rs = 28 then
        (if length rbuf < 7 then Inl RuntimePanic
         else Inr (rbuf
           [0 := to_byte (drop_bit 16 left AND 0xFF),
            1 := to_byte (drop_bit 8 left AND 0xFF),
            2 := to_byte (left AND 0xFF),
            3 := to_byte (push_bit 4 (drop_bit 24 left AND 0x0F) OR (drop_bit 24 right AND 0x0F)),
            4 := to_byte (drop_bit 16 right AND 0xFF),
            5 := to_byte (drop_bit 8 right AND 0xFF),
            6 := to_byte (right AND 0xFF)]))
      else if rs = 32 then
        (if length rbuf < 8 then Inl RuntimePanic
         else Inr (rbuf
           [0 := to_byte (drop_bit 24 left AND 0xFF),
            1 := to_byte (drop_bit 16 left AND 0xFF),
            2 := to_byte (drop_bit 8 left AND 0xFF),
            3 := to_byte (left AND 0xFF),
            4 := to_byte (drop_bit 24 right AND 0xFF),
            5 := to_byte (drop_bit 16 right AND 0xFF),
            6 := to_byte (drop_bit 8 right AND 0xFF),
            7 := to_byte (right AND 0xFF)]))
      else Inl (UnsupportedRecordSize rs))"

text \<open>
  \<^verbatim>\<open>func (t *Tree) copyRecord(buf []byte, children [2]*node, dataWriter *dataWriter) error\<close>.
  The results are the buffer and the data writer after the call, and the error.
\<close>

definition copyRecord ::
  "encoder \<Rightarrow> Tree \<Rightarrow> byte list \<Rightarrow> node \<times> node \<Rightarrow> dataWriter
     \<Rightarrow> byte list \<times> dataWriter \<times> error option" where
  "copyRecord enc t rbuf children dw =
     (case recordValueForNode enc t (fst children) dw of
        (left, dw1, e1) \<Rightarrow>
          if e1 \<noteq> None then (rbuf, dw1, e1)
          else
            (case recordValueForNode enc t (snd children) dw1 of
               (right, dw2, e2) \<Rightarrow>
                 if e2 \<noteq> None then (rbuf, dw2, e2)
                 else
                   (case packRecord (recordSize t) rbuf left right of
                      Inl e \<Rightarrow> (rbuf, dw2, Some e)
                    | Inr rbuf' \<Rightarrow> (rbuf', dw2, None))))"

text \<open>
  \<^verbatim>\<open>func (t *Tree) writeNode(w io.Writer, n *node, dataWriter *dataWriter, recordBuf []byte)
  (int, int64, error)\<close>. The first equation is the case \<^verbatim>\<open>n.isLeaf()\<close>. The results are
  the writer, the data writer and the record buffer after the call, then the number of
  nodes written, the number of bytes written and the error.
\<close>

fun writeNode ::
  "encoder \<Rightarrow> Tree \<Rightarrow> bufio \<Rightarrow> node \<Rightarrow> dataWriter \<Rightarrow> byte list
     \<Rightarrow> (bufio \<times> dataWriter \<times> byte list) \<times> int \<times> int \<times> error option" where
  "writeNode enc t w (Leaf x) dw recordBuf = ((w, dw, recordBuf), 0, 0, None)"
| "writeNode enc t w (Internal k l r) dw recordBuf =
     (case copyRecord enc t recordBuf (l, r) dw of
        (recordBuf1, dw1, e) \<Rightarrow>
          if e \<noteq> None then ((w, dw1, recordBuf1), 0, 0, e)
          else
            (case Write w recordBuf1 of
               (w1, nb, e) \<Rightarrow>
                 (case e of
                    Some x \<Rightarrow> ((w1, dw1, recordBuf1), 1, nb, Some (Wrap ''error writing node'' x))
                  | None \<Rightarrow>
                      (case writeNode enc t w1 l dw1 recordBuf1 of
                         ((w2, dw2, recordBuf2), leftNodes, leftNumBytes, e) \<Rightarrow>
                           if e \<noteq> None
                           then ((w2, dw2, recordBuf2), 1 + leftNodes, nb + leftNumBytes, e)
                           else
                             (case writeNode enc t w2 r dw2 recordBuf2 of
                                ((w3, dw3, recordBuf3), rightNodes, rightNumBytes, e) \<Rightarrow>
                                  ((w3, dw3, recordBuf3), 1 + leftNodes + rightNodes,
                                   nb + leftNumBytes + rightNumBytes, e))))))"

text \<open>
  \<^verbatim>\<open>func (t *Tree) writeMetadata(w *bufio.Writer) (int64, error)\<close>: the metadata map as the
  code builds it. Modelled from the spec: \<^verbatim>\<open>metadata.writeTo(w)\<close>, the method of the value
  model that writes the encoded map value (section 6, "metadata: one encoded map
  value") to the writer.
\<close>

definition metadata :: "Tree \<Rightarrow> DataType" where
  "metadata t =
     Map [(''binary_format_major_version'', Uint16 2),
          (''binary_format_minor_version'', Uint16 0),
          (''build_epoch'', Uint64 (word_of_int (buildEpoch t))),
          (''database_type'', String (databaseType t)),
          (''description'', Map (map (\<lambda>(k, v). (k, String v)) (description t))),
          (''ip_version'', Uint16 (word_of_int (ipVersion t))),
          (''languages'', Slice (map String (languages t))),
          (''node_count'', Uint32 (word_of_int (nodeCount t))),
          (''record_size'', Uint16 (word_of_int (recordSize t)))]"

definition writeMetadata :: "encoder \<Rightarrow> Tree \<Rightarrow> bufio \<Rightarrow> bufio \<times> int \<times> error option" where
  "writeMetadata enc t w =
     (case enc (metadata t) of
        Inl e \<Rightarrow> (w, 0, Some e)
      | Inr bs \<Rightarrow> Write w bs)"

text \<open>Go's integer division \<^verbatim>\<open>/\<close>, which truncates towards zero.\<close>

definition quo :: "int \<Rightarrow> int \<Rightarrow> int" where
  "quo a b = sgn a * sgn b * (\<bar>a\<bar> div \<bar>b\<bar>)"

text \<open>
  \<^verbatim>\<open>func (t *Tree) WriteTo(w io.Writer) (int64, error)\<close>. The results are the caller's
  writer after the call, the byte count and the error. \<^verbatim>\<open>make([]byte, n)\<close> panics for a
  negative \<open>n\<close>. On the error paths the code flushes the buffered writer and ignores the
  result (\<^verbatim>\<open>_ = buf.Flush()\<close>).
\<close>

definition WriteTo :: "encoder \<Rightarrow> Tree \<Rightarrow> sink \<Rightarrow> sink \<times> int \<times> error option" where
  "WriteTo enc t w =
     (if nodeCount t = 0 then (w, 0, Some NotFinalized)
      else
        (let b = NewWriter w;
             n = quo (2 * recordSize t) 8
         in if n < 0 then (w, 0, Some RuntimePanic)
            else
              (case writeNode enc t b (root t) newDataWriter (replicate (nat n) 0) of
                 ((b1, dw, recordBuf), nodes, numBytes, e) \<Rightarrow>
                   if e \<noteq> None then (b_wr (fst (Flush b1)), numBytes, e)
                   else if nodes \<noteq> nodeCount t
                   then (b_wr (fst (Flush b1)), numBytes,
                         Some (InternalInconsistency nodes (nodeCount t)))
                   else
                     (case Write b1 dataSectionSeparator of
                        (b2, nb, e) \<Rightarrow>
                          (case e of
                             Some x \<Rightarrow>
                               (b_wr (fst (Flush b2)), numBytes + nb,
                                Some (Wrap ''error writing data section separator'' x))
                           | None \<Rightarrow>
                               (case Buffer_WriteTo (buf dw) b2 of
                                  (b3, nb64, e) \<Rightarrow>
                                    if e \<noteq> None
                                    then (b_wr (fst (Flush b3)), numBytes + nb + nb64, e)
                                    else
                                      (case Write b3 metadataStartMarker of
                                         (b4, nb', e) \<Rightarrow>
                                           (case e of
                                              Some x \<Rightarrow>
                                                (b_wr (fst (Flush b4)), numBytes + nb + nb64 + nb',
                                                 Some (Wrap ''error writing metadata start marker'' x))
                                            | None \<Rightarrow>
                                                (case writeMetadata enc t b4 of
                                                   (b5, nb64', e) \<Rightarrow>
                                                     (case e of
                                                        Some x \<Rightarrow>
                                                          (b_wr (fst (Flush b5)),
                                                           numBytes + nb + nb64 + nb' + nb64',
                                                           Some (Wrap ''error writing metadata'' x))
                                                      | None \<Rightarrow>
                                                          (case Flush b5 of
                                                             (b6, e) \<Rightarrow>
                                                               (case e of
                                                                  Some x \<Rightarrow>
                                                                    (b_wr b6,
                                                                     numBytes + nb + nb64 + nb' + nb64',
                                                                     Some (Wrap ''error flushing buffer to writer'' x))
                                                                | None \<Rightarrow>
                                                                    (b_wr b6,
                                                                     numBytes + nb + nb64 + nb' + nb64',
                                                                     None)))))))))))))"

subsection \<open>The record layout as a reader sees it\<close>

text \<open>
  The layout of section 4.3 of the specification, read back: \<open>be_int\<close> is the big-endian
  value of a byte sequence, and \<open>unpackRecord\<close> recovers the two record values from the
  bytes of a record of 24, 28 or 32 bits. For 28 bits the upper four bits of byte 3 are
  bits 24 to 27 of the left value and its lower four bits are bits 24 to 27 of the
  right value. This is the specification's side of the round trip; the code's side
  is \<open>packRecord\<close>.
\<close>

definition be_int :: "byte list \<Rightarrow> int" where
  "be_int bs = foldl (\<lambda>a b. push_bit 8 a OR uint b) 0 bs"

definition unpackRecord :: "int \<Rightarrow> byte list \<Rightarrow> (int \<times> int) option" where
  "unpackRecord rs bs =
     (if rs = 24 \<and> length bs = 6 then Some (be_int (take 3 bs), be_int (drop 3 bs))
      else if rs = 28 \<and> length bs = 7 then
        Some (push_bit 24 (uint (drop_bit 4 (bs ! 3))) OR be_int (take 3 bs),
              push_bit 24 (uint (bs ! 3 AND 0x0F)) OR be_int (drop 4 bs))
      else if rs = 32 \<and> length bs = 8 then Some (be_int (take 4 bs), be_int (drop 4 bs))
      else None)"

text \<open>
  The bytes that the \<^verbatim>\<open>switch\<close> of \<^verbatim>\<open>copyRecord\<close> stores, as a list: what \<open>packRecord\<close>
  leaves in a buffer of exactly the record's length (lemma \<open>packRecord_packed\<close>).
\<close>

definition packed :: "int \<Rightarrow> int \<Rightarrow> int \<Rightarrow> byte list" where
  "packed rs l r = (if rs = 24 then [to_byte (drop_bit 16 l AND 0xFF), to_byte (drop_bit 8 l AND 0xFF), to_byte (l AND 0xFF),
      to_byte (drop_bit 16 r AND 0xFF), to_byte (drop_bit 8 r AND 0xFF), to_byte (r AND 0xFF)]
    else if rs = 28 then [to_byte (drop_bit 16 l AND 0xFF), to_byte (drop_bit 8 l AND 0xFF), to_byte (l AND 0xFF),
      to_byte (push_bit 4 (drop_bit 24 l AND 0x0F) OR (drop_bit 24 r AND 0x0F)),
      to_byte (drop_bit 16 r AND 0xFF), to_byte (drop_bit 8 r AND 0xFF), to_byte (r AND 0xFF)]
    else [to_byte (drop_bit 24 l AND 0xFF), to_byte (drop_bit 16 l AND 0xFF), to_byte (drop_bit 8 l AND 0xFF), to_byte (l AND 0xFF),
      to_byte (drop_bit 24 r AND 0xFF), to_byte (drop_bit 16 r AND 0xFF), to_byte (drop_bit 8 r AND 0xFF), to_byte (r AND 0xFF)])"

section \<open>Properties\<close>

subsection \<open>Packing records\<close>

lemma and_255: "(x::int) AND 255 = take_bit 8 x"
  by (simp add: take_bit_eq_mask mask_eq_exp_minus_1)
lemma and_15: "(x::int) AND 15 = take_bit 4 x"
  by (simp add: take_bit_eq_mask mask_eq_exp_minus_1)
lemma uint_to_byte: "uint (to_byte x) = take_bit 8 x"
  by (simp add: to_byte_def uint_word_of_int_eq)

lemma chunk: "push_bit k (take_bit m (drop_bit k x)) OR take_bit k x = take_bit (k + m) (x::int)"
  by (rule bit_eqI) (auto simp: bit_simps)

lemma be3: "push_bit 16 (take_bit 8 (drop_bit 16 x)) OR push_bit 8 (take_bit 8 (drop_bit 8 x)) OR take_bit 8 x
   = take_bit 24 (x::int)"
  using chunk[of 8 8 x] chunk[of 16 8 x] by (simp add: or.assoc)

lemma be4: "push_bit 24 (take_bit 8 (drop_bit 24 x)) OR push_bit 16 (take_bit 8 (drop_bit 16 x)) OR push_bit 8 (take_bit 8 (drop_bit 8 x)) OR take_bit 8 x
   = take_bit 32 (x::int)"
  using be3[of x] chunk[of 24 8 x] by (simp add: or.assoc)

lemma be28: "push_bit 24 (take_bit 4 (drop_bit 24 x)) OR push_bit 16 (take_bit 8 (drop_bit 16 x)) OR push_bit 8 (take_bit 8 (drop_bit 8 x)) OR take_bit 8 x
   = take_bit 28 (x::int)"
  using be3[of x] chunk[of 24 4 x] by (simp add: or.assoc)

lemma len6: "length xs = 6 \<Longrightarrow> \<exists>a b c d e f. xs = [a, b, c, d, e, f]"
  by (auto simp: length_Suc_conv numeral_eq_Suc)
lemma len7: "length xs = 7 \<Longrightarrow> \<exists>a b c d e f g. xs = [a, b, c, d, e, f, g]"
  by (auto simp: length_Suc_conv numeral_eq_Suc)
lemma len8: "length xs = 8 \<Longrightarrow> \<exists>a b c d e f g h. xs = [a, b, c, d, e, f, g, h]"
  by (auto simp: length_Suc_conv numeral_eq_Suc)

lemma packRecord_24: "length rbuf = 6 \<Longrightarrow> packRecord 24 rbuf l r = Inr (packed 24 l r)"
  using len6 [of rbuf] by (auto simp: packRecord_def packed_def)
lemma packRecord_28: "length rbuf = 7 \<Longrightarrow> packRecord 28 rbuf l r = Inr (packed 28 l r)"
  using len7 [of rbuf] by (auto simp: packRecord_def packed_def)
lemma packRecord_32: "length rbuf = 8 \<Longrightarrow> packRecord 32 rbuf l r = Inr (packed 32 l r)"
  using len8 [of rbuf] by (auto simp: packRecord_def packed_def)

lemma packRecord_packed:
  "rs \<in> {24, 28, 32} \<Longrightarrow> int (length rbuf) = quo (2 * rs) 8 \<Longrightarrow> packRecord rs rbuf l r = Inr (packed rs l r)"
  by (auto simp: quo_def packRecord_24 packRecord_28 packRecord_32)

lemma hi_nibble: "uint (drop_bit 4 (to_byte (push_bit 4 (take_bit 4 a) OR take_bit 4 b))) = take_bit 4 a"
  apply (simp only: unsigned_drop_bit_eq uint_to_byte) 
  apply (rule bit_eqI)
  apply (auto simp: bit_simps)
  done

lemma lo_nibble: "uint (to_byte (push_bit 4 (take_bit 4 a) OR take_bit 4 b) AND 0x0F) = take_bit 4 b"
proof -
  have u: "uint (0x0F :: byte) = 15" by simp
  show ?thesis
    apply (simp only: unsigned_and_eq uint_to_byte u and_15) 
    apply (rule bit_eqI)
    apply (auto simp: bit_simps)
    done
qed

lemma unpack24: "unpackRecord 24 (packed 24 l r) = Some (take_bit 24 l, take_bit 24 r)"
  using be3[of l] be3[of r]
  by (simp add: unpackRecord_def packed_def be_int_def and_255 uint_to_byte or.assoc)

lemma unpack32: "unpackRecord 32 (packed 32 l r) = Some (take_bit 32 l, take_bit 32 r)"
  using be4[of l] be4[of r]
  by (simp add: unpackRecord_def packed_def be_int_def and_255 uint_to_byte or.assoc)

lemma unpack28: "unpackRecord 28 (packed 28 l r) = Some (take_bit 28 l, take_bit 28 r)"
  using be28[of l] be28[of r]
  by (simp add: unpackRecord_def packed_def be_int_def and_255 and_15 uint_to_byte or.assoc hi_nibble lo_nibble)


text \<open>
  Claim C1. For every record size in 24, 28, 32 and every pair of record values
  \<open>l\<close> and \<open>r\<close> below \<open>2 ^ record-size\<close> (record values are node numbers, node counts and
  offsets, hence not negative), packing them into the record buffer of
  \<open>2 * record-size / 8\<close> bytes succeeds, fills the whole buffer, and unpacking the bytes
  by the specified layout gives back exactly \<open>(l, r)\<close>. For 28-bit records byte 3 holds
  the high nibble of \<open>l\<close> (its bits 24 to 27) in its upper four bits and the high nibble of
  \<open>r\<close> in its lower four bits.
\<close>

theorem C1_packed_record_round_trip:
  assumes "rs \<in> {24, 28, 32}"
    and "0 \<le> l" and "l < 2 ^ nat rs" and "0 \<le> r" and "r < 2 ^ nat rs"
    and "int (length rbuf) = quo (2 * rs) 8"
  shows "\<exists>bs. packRecord rs rbuf l r = Inr bs \<and> length bs = length rbuf
           \<and> unpackRecord rs bs = Some (l, r)
           \<and> (rs = 28 \<longrightarrow> uint (drop_bit 4 (bs ! 3)) = drop_bit 24 l
                          \<and> uint (bs ! 3 AND 0x0F) = drop_bit 24 r)"
proof -
  have p: "packRecord rs rbuf l r = Inr (packed rs l r)"
    using assms(1,6) by (rule packRecord_packed)
  have len: "length (packed rs l r) = length rbuf"
    using assms(1,6) by (auto simp: packed_def quo_def)
  have tl: "take_bit (nat rs) l = l" and tr: "take_bit (nat rs) r = r"
    using assms(2-5) by (simp_all add: take_bit_int_eq_self)
  have u: "unpackRecord rs (packed rs l r) = Some (l, r)"
    using assms(1) tl tr unpack24 [of l r] unpack28 [of l r] unpack32 [of l r] by auto
  have n: "uint (drop_bit 4 (packed 28 l r ! 3)) = drop_bit 24 l
           \<and> uint (packed 28 l r ! 3 AND 0x0F) = drop_bit 24 r" if "rs = 28"
  proof -
    have "drop_bit 24 l = take_bit 4 (drop_bit 24 l)" "drop_bit 24 r = take_bit 4 (drop_bit 24 r)"
      using tl tr that by (simp_all add: take_bit_drop_bit [where m = 4 and n = 24])
    then show ?thesis
      using hi_nibble [of "drop_bit 24 l" "drop_bit 24 r"] lo_nibble [of "drop_bit 24 l" "drop_bit 24 r"]
      by (simp add: packed_def and_15)
  qed
  show ?thesis using p len u n by auto
qed

text \<open>The theorem at the 28-bit record of the values \<open>0xABCDEF1\<close> and \<open>0x1234567\<close>.\<close>

theorem C1_packed_record_round_trip_witness:
  "(28 :: int) \<in> {24, 28, 32} \<and> (0 :: int) \<le> 0xABCDEF1 \<and> (0xABCDEF1 :: int) < 2 ^ nat 28
   \<and> (0 :: int) \<le> 0x1234567 \<and> (0x1234567 :: int) < 2 ^ nat 28
   \<and> int (length [0, 0, 0, 0, 0, 0, 0 :: byte]) = quo (2 * 28) 8
   \<and> packRecord 28 [0, 0, 0, 0, 0, 0, 0] 0xABCDEF1 0x1234567 = Inr [0xBC, 0xDE, 0xF1, 0xA1, 0x23, 0x45, 0x67]
   \<and> unpackRecord 28 [0xBC, 0xDE, 0xF1, 0xA1, 0x23, 0x45, 0x67] = Some (0xABCDEF1, 0x1234567)"
proof -
  have h1: "(28 :: int) \<in> {24, 28, 32}" by simp
  have h2: "(0 :: int) \<le> 0xABCDEF1" by simp
  have h3: "(0xABCDEF1 :: int) < 2 ^ nat 28" by simp
  have h4: "(0 :: int) \<le> 0x1234567" by simp
  have h5: "(0x1234567 :: int) < 2 ^ nat 28" by simp
  have h6: "int (length [0, 0, 0, 0, 0, 0, 0 :: byte]) = quo (2 * 28) 8" by (simp add: quo_def)
  have e: "packRecord 28 [0, 0, 0, 0, 0, 0, 0] 0xABCDEF1 0x1234567 = Inr [0xBC, 0xDE, 0xF1, 0xA1, 0x23, 0x45, 0x67]"
    by (simp add: packRecord_def to_byte_def)
  from C1_packed_record_round_trip [OF h1 h2 h3 h4 h5 h6] e
  have "unpackRecord 28 [0xBC, 0xDE, 0xF1, 0xA1, 0x23, 0x45, 0x67] = Some (0xABCDEF1, 0x1234567)"
    by auto
  with h1 h2 h3 h4 h5 h6 e show ?thesis by blast
qed


end
